theory Spec2Isabelle
  imports Main
begin

unbundle bit_operations_syntax

section \<open>The platform independent window of glumpy (glumpy/app/window/window.py)\<close>

text \<open>
  The class \<^verbatim>\<open>Window\<close> is embedded as a record of its instance attributes and one
  function per method. A method takes the window (Python's \<^verbatim>\<open>self\<close>) and, where it
  calls out of the class, the trace of external calls made so far; it returns the updated
  window and the extended trace. A method that can raise returns \<open>error + _\<close>, the
  exception on the left.

  Python is dynamically typed. Values the class only stores and hands on are taken from
  type variables: \<open>'f\<close> for timer callbacks, \<open>'d\<close> for timer delays, \<open>'p\<close> for every other
  object (colour components, the aspect, the shared context, the clock) and \<open>'v\<close> for the
  part of the instance that the base class \<^verbatim>\<open>Viewport\<close> manages.
\<close>

subsection \<open>Exceptions, attributes, collaborators\<close>

datatype error = AttributeError | IndexError

text \<open>
  An instance attribute that may not exist on the object. Reading an attribute that is
  \<open>Unset\<close> raises \<^verbatim>\<open>AttributeError\<close>. Python's \<^verbatim>\<open>None\<close> is a value, not an unset
  attribute: it is the \<open>None\<close> of an option type.
\<close>

datatype 'a attr = Unset | Attr 'a

text \<open>
  The configuration object handed to the constructor: the two attributes the constructor
  reads, \<^verbatim>\<open>_depth_size\<close> and \<^verbatim>\<open>_stencil_size\<close>, integers when present.
\<close>

record configuration =
  depth_size :: "int attr"
  stencil_size :: "int attr"

text \<open>The backend object: what \<^verbatim>\<open>self._backend.name()\<close> returns.\<close>

record backend =
  name :: string

text \<open>
  What the module takes from outside the class: \<^verbatim>\<open>sys.argv\<close>, the three buffer bits of
  the module \<^verbatim>\<open>gl\<close>, the constant \<^verbatim>\<open>mouse.NONE\<close>, and the constructor of the base class
  \<^verbatim>\<open>Viewport\<close>, which is called with \<^verbatim>\<open>size=(width,height)\<close> and \<^verbatim>\<open>aspect=aspect\<close>. None of
  them is defined in window.py, so they are parameters.
\<close>

record ('p, 'v) environment =
  sys_argv :: "string list"
  GL_COLOR_BUFFER_BIT :: int
  GL_DEPTH_BUFFER_BIT :: int
  GL_STENCIL_BUFFER_BIT :: int
  mouse_NONE :: int
  Viewport_init :: "int \<times> int \<Rightarrow> 'p option \<Rightarrow> 'v"

text \<open>
  The calls the class makes out of itself, in the order made: \<^verbatim>\<open>log.warn(msg)\<close>,
  \<^verbatim>\<open>gl.glClearColor(r, g, b, a)\<close> and \<^verbatim>\<open>gl.glClear(mask)\<close>.
\<close>

datatype 'p call =
    Log_warn string
  | GL_glClearColor 'p 'p 'p 'p
  | GL_glClear int

subsection \<open>The instance\<close>

text \<open>
  One field per attribute of \<^verbatim>\<open>self\<close>: \<open>self_width\<close> is \<^verbatim>\<open>self._width\<close>, and so on;
  \<open>self_color\<close> is \<^verbatim>\<open>self.color\<close>. \<open>self_config\<close> is \<^verbatim>\<open>self._config\<close>, which the property
  \<^verbatim>\<open>config\<close> reads. \<open>self_viewport\<close> is what \<^verbatim>\<open>Viewport.__init__\<close> set up.
\<close>

record ('f, 'd, 'p, 'v) Window =
  self_viewport :: 'v
  self_mouse_x :: int
  self_mouse_y :: int
  self_button :: int
  self_x :: int
  self_y :: int
  self_width :: int
  self_height :: int
  self_title :: string
  self_visible :: bool
  self_fullscreen :: bool
  self_decoration :: bool
  self_clock :: "'p option"
  self_timer_stack :: "('f \<times> 'd) list"
  self_timer_date :: "int list"
  self_backend :: "backend option"
  self_color :: "'p \<times> 'p \<times> 'p \<times> 'p"
  self_clearflags :: int
  self_config :: "configuration option attr"

subsection \<open>The constructor\<close>

text \<open>
  The arguments of \<^verbatim>\<open>__init__\<close>. \<^verbatim>\<open>title\<close>, \<^verbatim>\<open>aspect\<close>, \<^verbatim>\<open>config\<close> and \<^verbatim>\<open>context\<close> may be
  \<^verbatim>\<open>None\<close>.
\<close>

record 'p init_args =
  arg_width :: int
  arg_height :: int
  arg_title :: "string option"
  arg_visible :: bool
  arg_aspect :: "'p option"
  arg_decoration :: bool
  arg_fullscreen :: bool
  arg_config :: "configuration option"
  arg_context :: "'p option"
  arg_color :: "'p \<times> 'p \<times> 'p \<times> 'p"

text \<open>
  The defaults of the signature (line 104): an argument the caller omits has this value.
  The default colour is \<^verbatim>\<open>(0,0,0,1)\<close>; \<open>zero\<close> and \<open>one\<close> are these two numbers as
  objects of \<open>'p\<close>.
\<close>

definition Window_defaults :: "'p \<Rightarrow> 'p \<Rightarrow> 'p init_args" where
  "Window_defaults zero one =
     \<lparr>arg_width = 256, arg_height = 256, arg_title = None, arg_visible = True,
      arg_aspect = None, arg_decoration = True, arg_fullscreen = False,
      arg_config = None, arg_context = None, arg_color = (zero, zero, zero, one)\<rparr>"

text \<open>\<^verbatim>\<open>sys.argv[0]\<close>: indexing an empty list raises \<^verbatim>\<open>IndexError\<close>.\<close>

definition argv0 :: "('p, 'v) environment \<Rightarrow> error + string" where
  "argv0 env = (case sys_argv env of [] \<Rightarrow> Inl IndexError | p # _ \<Rightarrow> Inr p)"

text \<open>
  Line 145, \<^verbatim>\<open>title or sys.argv[0]\<close>: the title when it is truthy (neither \<^verbatim>\<open>None\<close> nor
  the empty string); otherwise \<^verbatim>\<open>sys.argv[0]\<close>, which is evaluated only then.
\<close>

definition title_or_argv0 :: "('p, 'v) environment \<Rightarrow> string option \<Rightarrow> error + string" where
  "title_or_argv0 env title =
     (case title of
        None \<Rightarrow> argv0 env
      | Some t \<Rightarrow> if t \<noteq> [] then Inr t else argv0 env)"

text \<open>
  Lines 155 to 159: the colour bit, then the depth bit if \<^verbatim>\<open>config._depth_size\<close> is
  truthy (not zero), then the stencil bit if \<^verbatim>\<open>config._stencil_size\<close> is truthy. Reading
  an attribute of \<^verbatim>\<open>None\<close>, or one the object does not have, raises \<^verbatim>\<open>AttributeError\<close>.
\<close>

definition init_clearflags :: "('p, 'v) environment \<Rightarrow> configuration option \<Rightarrow> error + int" where
  "init_clearflags env config =
     (let clearflags = GL_COLOR_BUFFER_BIT env in
      case config of
        None \<Rightarrow> Inl AttributeError
      | Some c \<Rightarrow>
         (case depth_size c of
            Unset \<Rightarrow> Inl AttributeError
          | Attr d \<Rightarrow>
             (let clearflags = (if d \<noteq> 0 then clearflags OR GL_DEPTH_BUFFER_BIT env
                                else clearflags) in
              case stencil_size c of
                Unset \<Rightarrow> Inl AttributeError
              | Attr s \<Rightarrow>
                  Inr (if s \<noteq> 0 then clearflags OR GL_STENCIL_BUFFER_BIT env
                       else clearflags))))"

text \<open>
  \<^verbatim>\<open>Window.__init__\<close> (lines 104 to 159), statement by statement. \<^verbatim>\<open>context\<close> is not
  used. No statement assigns \<^verbatim>\<open>self._config\<close>, and \<^verbatim>\<open>Viewport.__init__\<close> is not given the
  configuration, so the attribute is unset on the constructed window.
\<close>

definition Window_init ::
  "('p, 'v) environment \<Rightarrow> 'p init_args \<Rightarrow> error + ('f, 'd, 'p, 'v) Window" where
  "Window_init env a =
     (let viewport = Viewport_init env (arg_width a, arg_height a) (arg_aspect a) in
      case title_or_argv0 env (arg_title a) of
        Inl e \<Rightarrow> Inl e
      | Inr title \<Rightarrow>
         (case init_clearflags env (arg_config a) of
            Inl e \<Rightarrow> Inl e
          | Inr clearflags \<Rightarrow>
              Inr \<lparr>self_viewport = viewport,
                   self_mouse_x = 0,
                   self_mouse_y = 0,
                   self_button = mouse_NONE env,
                   self_x = 0,
                   self_y = 0,
                   self_width = arg_width a,
                   self_height = arg_height a,
                   self_title = title,
                   self_visible = arg_visible a,
                   self_fullscreen = arg_fullscreen a,
                   self_decoration = arg_decoration a,
                   self_clock = None,
                   self_timer_stack = [],
                   self_timer_date = [],
                   self_backend = None,
                   self_color = arg_color a,
                   self_clearflags = clearflags,
                   self_config = Unset\<rparr>))"

subsection \<open>Properties\<close>

definition Window_width :: "('f, 'd, 'p, 'v) Window \<Rightarrow> int" where
  "Window_width w = self_width w"

definition Window_height :: "('f, 'd, 'p, 'v) Window \<Rightarrow> int" where
  "Window_height w = self_height w"

text \<open>The property \<^verbatim>\<open>config\<close> (lines 174 to 176): \<^verbatim>\<open>return self._config\<close>.\<close>

definition Window_config :: "('f, 'd, 'p, 'v) Window \<Rightarrow> error + configuration option" where
  "Window_config w = (case self_config w of Unset \<Rightarrow> Inl AttributeError | Attr c \<Rightarrow> Inr c)"

subsection \<open>Clearing\<close>

text \<open>
  \<^verbatim>\<open>clear\<close> (lines 178 to 182): \<^verbatim>\<open>gl.glClearColor(*self.color)\<close>, then
  \<^verbatim>\<open>gl.glClear(self._clearflags)\<close>. The colour is the 4-tuple of the signature, unpacked
  into the four arguments.
\<close>

definition Window_clear ::
  "('f, 'd, 'p, 'v) Window \<Rightarrow> 'p call list \<Rightarrow> ('f, 'd, 'p, 'v) Window \<times> 'p call list" where
  "Window_clear w calls =
     (case self_color w of
        (r, g, b, a) \<Rightarrow> (w, calls @ [GL_glClearColor r g b a] @ [GL_glClear (self_clearflags w)]))"

subsection \<open>The stub operations\<close>

text \<open>
  \<^verbatim>\<open>self._backend.name()\<close>: \<^verbatim>\<open>None\<close> has no attribute \<^verbatim>\<open>name\<close>.
\<close>

definition backend_name :: "('f, 'd, 'p, 'v) Window \<Rightarrow> error + string" where
  "backend_name w = (case self_backend w of None \<Rightarrow> Inl AttributeError | Some b \<Rightarrow> Inr (name b))"

text \<open>
  \<^verbatim>\<open>log.warn(fmt % self._backend.name())\<close>, where \<^verbatim>\<open>fmt\<close> is \<^verbatim>\<open>%s\<close> followed by \<open>rest\<close>:
  the argument is evaluated first, so nothing is logged when it raises.
\<close>

definition warn_backend ::
  "string \<Rightarrow> ('f, 'd, 'p, 'v) Window \<Rightarrow> 'p call list
     \<Rightarrow> error + ('f, 'd, 'p, 'v) Window \<times> 'p call list" where
  "warn_backend rest w calls =
     (case backend_name w of
        Inl e \<Rightarrow> Inl e
      | Inr n \<Rightarrow> Inr (w, calls @ [Log_warn (n @ rest)]))"

text \<open>Lines 184 to 234, one definition per method, each with the text of its own message.\<close>

definition Window_show ::
  "('f, 'd, 'p, 'v) Window \<Rightarrow> 'p call list \<Rightarrow> error + ('f, 'd, 'p, 'v) Window \<times> 'p call list" where
  "Window_show w calls = warn_backend '' backend cannot show window'' w calls"

definition Window_hide ::
  "('f, 'd, 'p, 'v) Window \<Rightarrow> 'p call list \<Rightarrow> error + ('f, 'd, 'p, 'v) Window \<times> 'p call list" where
  "Window_hide w calls = warn_backend '' backend cannot hide window'' w calls"

definition Window_close ::
  "('f, 'd, 'p, 'v) Window \<Rightarrow> 'p call list \<Rightarrow> error + ('f, 'd, 'p, 'v) Window \<times> 'p call list" where
  "Window_close w calls = warn_backend '' backend cannot close window'' w calls"

definition Window_set_title ::
  "('f, 'd, 'p, 'v) Window \<Rightarrow> string \<Rightarrow> 'p call list
     \<Rightarrow> error + ('f, 'd, 'p, 'v) Window \<times> 'p call list" where
  "Window_set_title w title calls = warn_backend '' backend cannot set window title'' w calls"

definition Window_get_title ::
  "('f, 'd, 'p, 'v) Window \<Rightarrow> 'p call list \<Rightarrow> error + ('f, 'd, 'p, 'v) Window \<times> 'p call list" where
  "Window_get_title w calls = warn_backend '' backend cannot get window title'' w calls"

definition Window_set_size ::
  "('f, 'd, 'p, 'v) Window \<Rightarrow> int \<Rightarrow> int \<Rightarrow> 'p call list
     \<Rightarrow> error + ('f, 'd, 'p, 'v) Window \<times> 'p call list" where
  "Window_set_size w width height calls = warn_backend '' backend cannot set window size'' w calls"

definition Window_get_size ::
  "('f, 'd, 'p, 'v) Window \<Rightarrow> 'p call list \<Rightarrow> error + ('f, 'd, 'p, 'v) Window \<times> 'p call list" where
  "Window_get_size w calls = warn_backend '' backend cannot get window size'' w calls"

definition Window_set_position ::
  "('f, 'd, 'p, 'v) Window \<Rightarrow> int \<Rightarrow> int \<Rightarrow> 'p call list
     \<Rightarrow> error + ('f, 'd, 'p, 'v) Window \<times> 'p call list" where
  "Window_set_position w x y calls = warn_backend '' backend cannot set window position'' w calls"

definition Window_get_position ::
  "('f, 'd, 'p, 'v) Window \<Rightarrow> 'p call list \<Rightarrow> error + ('f, 'd, 'p, 'v) Window \<times> 'p call list" where
  "Window_get_position w calls = warn_backend '' backend cannot get position'' w calls"

definition Window_set_fullscreen ::
  "('f, 'd, 'p, 'v) Window \<Rightarrow> bool \<Rightarrow> 'p call list
     \<Rightarrow> error + ('f, 'd, 'p, 'v) Window \<times> 'p call list" where
  "Window_set_fullscreen w fullsrceen calls =
     warn_backend '' backend cannot set fullscreen mode'' w calls"

definition Window_get_fullscreen ::
  "('f, 'd, 'p, 'v) Window \<Rightarrow> 'p call list \<Rightarrow> error + ('f, 'd, 'p, 'v) Window \<times> 'p call list" where
  "Window_get_fullscreen w calls = warn_backend '' backend cannot get fullscreen mode'' w calls"

definition Window_swap ::
  "('f, 'd, 'p, 'v) Window \<Rightarrow> 'p call list \<Rightarrow> error + ('f, 'd, 'p, 'v) Window \<times> 'p call list" where
  "Window_swap w calls = warn_backend '' backend cannot swap buffers'' w calls"

definition Window_activate ::
  "('f, 'd, 'p, 'v) Window \<Rightarrow> 'p call list \<Rightarrow> error + ('f, 'd, 'p, 'v) Window \<times> 'p call list" where
  "Window_activate w calls = warn_backend '' backend cannot make window active'' w calls"

text \<open>A call of one of the thirteen stubs, with its arguments, and its dispatch.\<close>

datatype stub_call =
    Show | Hide | Close | Set_title string | Get_title | Set_size int int | Get_size
  | Set_position int int | Get_position | Set_fullscreen bool | Get_fullscreen | Swap | Activate

fun invoke ::
  "stub_call \<Rightarrow> ('f, 'd, 'p, 'v) Window \<Rightarrow> 'p call list
     \<Rightarrow> error + ('f, 'd, 'p, 'v) Window \<times> 'p call list" where
  "invoke Show w calls = Window_show w calls"
| "invoke Hide w calls = Window_hide w calls"
| "invoke Close w calls = Window_close w calls"
| "invoke (Set_title t) w calls = Window_set_title w t calls"
| "invoke Get_title w calls = Window_get_title w calls"
| "invoke (Set_size wd ht) w calls = Window_set_size w wd ht calls"
| "invoke Get_size w calls = Window_get_size w calls"
| "invoke (Set_position x y) w calls = Window_set_position w x y calls"
| "invoke Get_position w calls = Window_get_position w calls"
| "invoke (Set_fullscreen b) w calls = Window_set_fullscreen w b calls"
| "invoke Get_fullscreen w calls = Window_get_fullscreen w calls"
| "invoke Swap w calls = Window_swap w calls"
| "invoke Activate w calls = Window_activate w calls"

text \<open>
  The words by which each operation is named after \<^verbatim>\<open><backend-name> backend cannot\<close> in
  the log; the properties of the stubs are stated against this table.
\<close>

fun action :: "stub_call \<Rightarrow> string" where
  "action Show = ''show window''"
| "action Hide = ''hide window''"
| "action Close = ''close window''"
| "action (Set_title t) = ''set window title''"
| "action Get_title = ''get window title''"
| "action (Set_size wd ht) = ''set window size''"
| "action Get_size = ''get window size''"
| "action (Set_position x y) = ''set window position''"
| "action Get_position = ''get position''"
| "action (Set_fullscreen b) = ''set fullscreen mode''"
| "action Get_fullscreen = ''get fullscreen mode''"
| "action Swap = ''swap buffers''"
| "action Activate = ''make window active''"

subsection \<open>Timers\<close>

text \<open>
  \<^verbatim>\<open>timer\<close> (lines 236 to 257) returns the inner function \<^verbatim>\<open>decorator\<close>, a closure over
  \<^verbatim>\<open>self\<close> and \<^verbatim>\<open>delay\<close>. The closure is the value \<open>Decorator delay\<close>; \<^verbatim>\<open>self\<close> is a
  reference, so applying the closure acts on the window as it is at that moment.
\<close>

datatype 'd closure = Decorator 'd

definition Window_timer ::
  "('f, 'd, 'p, 'v) Window \<Rightarrow> 'd \<Rightarrow> 'd closure \<times> ('f, 'd, 'p, 'v) Window" where
  "Window_timer w delay = (Decorator delay, w)"

fun decorator ::
  "'d closure \<Rightarrow> 'f \<Rightarrow> ('f, 'd, 'p, 'v) Window \<Rightarrow> 'f \<times> ('f, 'd, 'p, 'v) Window" where
  "decorator (Decorator delay) func w =
     (func, w\<lparr>self_timer_stack := self_timer_stack w @ [(func, delay)],
              self_timer_date := self_timer_date w @ [0]\<rparr>)"

text \<open>
  The usage of the docstring, \<^verbatim>\<open>@window.timer(delay)\<close> above \<^verbatim>\<open>def func\<close>: the call of
  \<^verbatim>\<open>timer\<close>, then the returned decorator applied to the function. The first component is
  the value bound to the function's name afterwards.
\<close>

definition register ::
  "('f, 'd, 'p, 'v) Window \<Rightarrow> 'd \<Rightarrow> 'f \<Rightarrow> 'f \<times> ('f, 'd, 'p, 'v) Window" where
  "register w delay func = (case Window_timer w delay of (dec, w') \<Rightarrow> decorator dec func w')"

text \<open>A sequence of such registrations, made in the order of the list.\<close>

fun registrations ::
  "('f \<times> 'd) list \<Rightarrow> ('f, 'd, 'p, 'v) Window \<Rightarrow> ('f, 'd, 'p, 'v) Window" where
  "registrations [] w = w"
| "registrations ((func, delay) # rs) w = registrations rs (snd (register w delay func))"

text \<open>One decorator applied to several functions in turn.\<close>

fun decorate_all ::
  "'d closure \<Rightarrow> 'f list \<Rightarrow> ('f, 'd, 'p, 'v) Window \<Rightarrow> ('f, 'd, 'p, 'v) Window" where
  "decorate_all dec [] w = w"
| "decorate_all dec (func # fs) w = decorate_all dec fs (snd (decorator dec func w))"

subsection \<open>Concrete inputs\<close>

text \<open>
  An environment with the values of the OpenGL headers (\<open>GL_COLOR_BUFFER_BIT = 0x4000\<close>,
  \<open>GL_DEPTH_BUFFER_BIT = 0x100\<close>, \<open>GL_STENCIL_BUFFER_BIT = 0x400\<close>), a script name in
  \<^verbatim>\<open>sys.argv\<close>, and a viewport that keeps its two arguments.
\<close>

definition script_env :: "(nat, (int \<times> int) \<times> nat option) environment" where
  "script_env =
     \<lparr>sys_argv = [''demo.py''], GL_COLOR_BUFFER_BIT = 16384, GL_DEPTH_BUFFER_BIT = 256,
      GL_STENCIL_BUFFER_BIT = 1024, mouse_NONE = 0,
      Viewport_init = (\<lambda>size aspect. (size, aspect))\<rparr>"

text \<open>
  The interactive interpreter: no script was given, and \<^verbatim>\<open>sys.argv\<close> is \<^verbatim>\<open>['']\<close>.
\<close>

definition interactive_env :: "(nat, (int \<times> int) \<times> nat option) environment" where
  "interactive_env = script_env\<lparr>sys_argv := ['''']\<rparr>"

text \<open>A configuration with a 24-bit depth buffer and no stencil buffer.\<close>

definition config24 :: configuration where
  "config24 = \<lparr>depth_size = Attr 24, stencil_size = Attr 0\<rparr>"

text \<open>The default arguments with that configuration, colour \<^verbatim>\<open>(0,0,0,1)\<close>.\<close>

definition args24 :: "nat init_args" where
  "args24 = (Window_defaults 0 1)\<lparr>arg_config := Some config24\<rparr>"

text \<open>The window these arguments construct under \<open>script_env\<close>.\<close>

definition window24 :: "(nat, nat, nat, (int \<times> int) \<times> nat option) Window" where
  "window24 =
     \<lparr>self_viewport = ((256, 256), None), self_mouse_x = 0, self_mouse_y = 0, self_button = 0,
      self_x = 0, self_y = 0, self_width = 256, self_height = 256, self_title = ''demo.py'',
      self_visible = True, self_fullscreen = False, self_decoration = True, self_clock = None,
      self_timer_stack = [], self_timer_date = [], self_backend = None,
      self_color = (0, 0, 0, 1), self_clearflags = 16640, self_config = Unset\<rparr>"

text \<open>The window the same arguments construct under \<open>interactive_env\<close>.\<close>

definition untitled_window :: "(nat, nat, nat, (int \<times> int) \<times> nat option) Window" where
  "untitled_window = window24\<lparr>self_title := []\<rparr>"

text \<open>Configuration objects that lack one of the two attributes.\<close>

definition config_no_depth :: configuration where
  "config_no_depth = \<lparr>depth_size = Unset, stencil_size = Attr 8\<rparr>"

definition config_no_stencil :: configuration where
  "config_no_stencil = \<lparr>depth_size = Attr 24, stencil_size = Unset\<rparr>"

section \<open>Properties of the constructor\<close>

lemma init_window24: "Window_init script_env args24 = Inr window24"
  by (simp add: Window_init_def title_or_argv0_def argv0_def init_clearflags_def script_env_def
      args24_def Window_defaults_def config24_def window24_def)

lemma Window_init_fresh:
  "Window_init env a = Inr w \<Longrightarrow>
     self_timer_stack w = [] \<and> self_timer_date w = [] \<and> self_backend w = None \<and>
     self_config w = Unset"
  by (auto simp: Window_init_def split: sum.splits)

lemma Window_init_title:
  "Window_init env a = Inr w \<Longrightarrow> title_or_argv0 env (arg_title a) = Inr (self_title w)"
  by (auto simp: Window_init_def split: sum.splits)

lemma Window_init_clearflags:
  "Window_init env a = Inr w \<Longrightarrow> init_clearflags env (arg_config a) = Inr (self_clearflags w)"
  by (auto simp: Window_init_def split: sum.splits)

text \<open>
  The constructor returns a window whenever the title can be computed and the
  configuration has both attributes.
\<close>

lemma Window_init_succeeds:
  assumes "title_or_argv0 env (arg_title a) = Inr t"
    and "arg_config a = Some c" and "depth_size c = Attr d" and "stencil_size c = Attr s"
  shows "\<exists>w. Window_init env a = Inr w"
  using assms by (simp add: Window_init_def init_clearflags_def Let_def)

text \<open>
  C3. On a constructed window, \<^verbatim>\<open>_clearflags\<close> is the colour bit, with the depth bit ORed
  in exactly when the configuration's depth size is not zero and the stencil bit ORed in
  exactly when its stencil size is not zero; with both sizes zero it is the colour bit
  alone.
\<close>

theorem clearflags_from_config:
  assumes "Window_init env a = Inr w"
    and "arg_config a = Some c" and "depth_size c = Attr d" and "stencil_size c = Attr s"
  shows "self_clearflags w =
           (if d \<noteq> 0
            then (if s \<noteq> 0
                  then (GL_COLOR_BUFFER_BIT env OR GL_DEPTH_BUFFER_BIT env) OR
                       GL_STENCIL_BUFFER_BIT env
                  else GL_COLOR_BUFFER_BIT env OR GL_DEPTH_BUFFER_BIT env)
            else (if s \<noteq> 0
                  then GL_COLOR_BUFFER_BIT env OR GL_STENCIL_BUFFER_BIT env
                  else GL_COLOR_BUFFER_BIT env))"
  using Window_init_clearflags [OF assms(1)] assms(2-4)
  by (auto simp: init_clearflags_def Let_def)

theorem clearflags_from_config_witness:
  "Window_init script_env args24 = Inr window24 \<and> arg_config args24 = Some config24 \<and>
   depth_size config24 = Attr 24 \<and> stencil_size config24 = Attr 0 \<and>
   self_clearflags window24 = 16384 OR 256"
proof -
  have c: "arg_config args24 = Some config24"
    by (simp add: args24_def)
  have d: "depth_size config24 = Attr 24" and s: "stencil_size config24 = Attr 0"
    by (simp_all add: config24_def)
  from clearflags_from_config [OF init_window24 c d s] init_window24 c d s
  show ?thesis by (simp add: script_env_def)
qed

text \<open>
  C4. The property \<^verbatim>\<open>config\<close> is to return the configuration the window was constructed
  with. The constructor never assigns \<^verbatim>\<open>self._config\<close>: on the window constructed with
  \<open>config24\<close> the property raises \<^verbatim>\<open>AttributeError\<close>.
\<close>

theorem config_property_raises:
  "arg_config args24 = Some config24 \<and> Window_init script_env args24 = Inr window24 \<and>
   Window_config window24 = Inl AttributeError"
  using init_window24 by (simp add: args24_def Window_config_def window24_def)

lemma title_or_argv0_None:
  "title_or_argv0 env None = Inr t \<Longrightarrow> \<exists>rest. sys_argv env = t # rest"
  by (auto simp: title_or_argv0_def argv0_def split: list.splits)

text \<open>
  C7, as amended. For every window constructed with \<^verbatim>\<open>title=None\<close>, the stored title is
  \<^verbatim>\<open>sys.argv[0]\<close>, the name of the invoking program; it is non-empty exactly when that
  name is non-empty.
\<close>

theorem default_title_is_argv0:
  assumes "Window_init env a = Inr w" and "arg_title a = None"
  shows "\<exists>p rest. sys_argv env = p # rest \<and> self_title w = p \<and>
           (self_title w \<noteq> [] \<longleftrightarrow> p \<noteq> [])"
  using Window_init_title [OF assms(1)] assms(2) title_or_argv0_None [of env "self_title w"]
  by auto

theorem default_title_is_argv0_witness:
  "Window_init script_env args24 = Inr window24 \<and> arg_title args24 = None \<and>
   sys_argv script_env = [''demo.py''] \<and> self_title window24 = ''demo.py''"
proof -
  have t: "arg_title args24 = None"
    by (simp add: args24_def Window_defaults_def)
  from default_title_is_argv0 [OF init_window24 t] init_window24 t
  show ?thesis by (simp add: script_env_def)
qed

text \<open>
  C7 as stated, with the stored title never empty, fails under the interactive
  interpreter, where \<^verbatim>\<open>sys.argv[0]\<close> is the empty string.
\<close>

theorem default_title_empty_counterexample:
  "arg_title args24 = None \<and> Window_init interactive_env args24 = Inr untitled_window \<and>
   self_title untitled_window = []"
  by (simp add: Window_init_def title_or_argv0_def argv0_def init_clearflags_def script_env_def
      interactive_env_def args24_def Window_defaults_def config24_def window24_def
      untitled_window_def)

lemma init_clearflags_fails:
  assumes "config = None \<or>
           (\<exists>c. config = Some c \<and> (depth_size c = Unset \<or> stencil_size c = Unset))"
  shows "init_clearflags env config = Inl AttributeError"
  using assms by (auto simp: init_clearflags_def Let_def split: attr.splits)

lemma title_or_argv0_nonempty:
  "sys_argv env \<noteq> [] \<Longrightarrow> \<exists>t. title_or_argv0 env title = Inr t"
  by (auto simp: title_or_argv0_def argv0_def split: list.splits option.splits)

text \<open>
  C9. Construction fails when the \<^verbatim>\<open>config\<close> argument is \<^verbatim>\<open>None\<close> (as it is when omitted)
  or is an object without \<^verbatim>\<open>_depth_size\<close> or without \<^verbatim>\<open>_stencil_size\<close>; the exception is
  \<^verbatim>\<open>AttributeError\<close> whenever \<^verbatim>\<open>sys.argv\<close> is not empty.
\<close>

theorem init_fails_without_config:
  assumes "arg_config a = None \<or>
           (\<exists>c. arg_config a = Some c \<and> (depth_size c = Unset \<or> stencil_size c = Unset))"
  shows "(\<exists>e. Window_init env a = Inl e) \<and>
         (sys_argv env \<noteq> [] \<longrightarrow> Window_init env a = Inl AttributeError)"
proof -
  have f: "init_clearflags env (arg_config a) = Inl AttributeError"
    using assms by (rule init_clearflags_fails)
  have "\<exists>e. Window_init env a = Inl e"
    using f by (simp add: Window_init_def split: sum.splits)
  moreover have "Window_init env a = Inl AttributeError" if "sys_argv env \<noteq> []"
    using f title_or_argv0_nonempty [OF that, of "arg_title a"]
    by (auto simp: Window_init_def)
  ultimately show ?thesis by blast
qed

theorem init_fails_without_config_witness:
  "arg_config (Window_defaults 0 1 :: nat init_args) = None \<and>
   (Window_init script_env (Window_defaults 0 1)
      :: error + (nat, nat, nat, (int \<times> int) \<times> nat option) Window) = Inl AttributeError \<and>
   (Window_init script_env (args24\<lparr>arg_config := Some config_no_depth\<rparr>)
      :: error + (nat, nat, nat, (int \<times> int) \<times> nat option) Window) = Inl AttributeError \<and>
   (Window_init script_env (args24\<lparr>arg_config := Some config_no_stencil\<rparr>)
      :: error + (nat, nat, nat, (int \<times> int) \<times> nat option) Window) = Inl AttributeError"
proof -
  have n: "arg_config (Window_defaults 0 1 :: nat init_args) = None"
    by (simp add: Window_defaults_def)
  have d: "\<exists>c. arg_config (args24\<lparr>arg_config := Some config_no_depth\<rparr>) = Some c \<and>
             (depth_size c = Unset \<or> stencil_size c = Unset)"
    by (simp add: config_no_depth_def)
  have s: "\<exists>c. arg_config (args24\<lparr>arg_config := Some config_no_stencil\<rparr>) = Some c \<and>
             (depth_size c = Unset \<or> stencil_size c = Unset)"
    by (simp add: config_no_stencil_def)
  have a: "sys_argv script_env \<noteq> []"
    by (simp add: script_env_def)
  have 1: "(Window_init script_env (Window_defaults 0 1)
      :: error + (nat, nat, nat, (int \<times> int) \<times> nat option) Window) = Inl AttributeError"
    by (rule init_fails_without_config [OF disjI1 [OF n], THEN conjunct2, THEN mp, OF a])
  have 2: "(Window_init script_env (args24\<lparr>arg_config := Some config_no_depth\<rparr>)
      :: error + (nat, nat, nat, (int \<times> int) \<times> nat option) Window) = Inl AttributeError"
    by (rule init_fails_without_config [OF disjI2 [OF d], THEN conjunct2, THEN mp, OF a])
  have 3: "(Window_init script_env (args24\<lparr>arg_config := Some config_no_stencil\<rparr>)
      :: error + (nat, nat, nat, (int \<times> int) \<times> nat option) Window) = Inl AttributeError"
    by (rule init_fails_without_config [OF disjI2 [OF s], THEN conjunct2, THEN mp, OF a])
  from n 1 2 3 show ?thesis by simp
qed

section \<open>The stub operations\<close>

text \<open>The thirteen operations are named by thirteen different texts.\<close>

lemma action_distinct:
  "distinct (map action [Show, Hide, Close, Set_title t, Get_title, Set_size wd ht, Get_size,
     Set_position x y, Get_position, Set_fullscreen f, Get_fullscreen, Swap, Activate])"
  by simp

text \<open>
  C5. On a window whose backend is set, every stub operation returns normally, returns the
  window as it was (every attribute unchanged), and adds exactly one call of \<^verbatim>\<open>log.warn\<close>
  to the trace, whose message is the backend's name, \<^verbatim>\<open> backend cannot \<close> and the words
  naming the operation.
\<close>

theorem stub_warns_once_and_keeps_window:
  assumes "self_backend w = Some b"
  shows "invoke op w calls =
           Inr (w, calls @ [Log_warn (name b @ '' backend cannot '' @ action op)])"
  using assms
  by (cases op)
    (simp_all add: warn_backend_def backend_name_def Window_show_def Window_hide_def
      Window_close_def Window_set_title_def Window_get_title_def Window_set_size_def
      Window_get_size_def Window_set_position_def Window_get_position_def
      Window_set_fullscreen_def Window_get_fullscreen_def Window_swap_def Window_activate_def)

theorem stub_warns_once_and_keeps_window_witness:
  "self_backend (window24\<lparr>self_backend := Some \<lparr>name = ''GLFW''\<rparr>\<rparr>) = Some \<lparr>name = ''GLFW''\<rparr> \<and>
   invoke (Set_size 640 480) (window24\<lparr>self_backend := Some \<lparr>name = ''GLFW''\<rparr>\<rparr>) [] =
     Inr (window24\<lparr>self_backend := Some \<lparr>name = ''GLFW''\<rparr>\<rparr>,
          [Log_warn ''GLFW backend cannot set window size''])"
proof -
  have b: "self_backend (window24\<lparr>self_backend := Some \<lparr>name = ''GLFW''\<rparr>\<rparr>) = Some \<lparr>name = ''GLFW''\<rparr>"
    by simp
  from stub_warns_once_and_keeps_window [OF b, of "Set_size 640 480" "[]"] b
  show ?thesis by simp
qed

text \<open>
  C6. On a freshly constructed window, on which no backend has been set, every stub
  operation raises \<^verbatim>\<open>AttributeError\<close>: \<^verbatim>\<open>self._backend\<close> is \<^verbatim>\<open>None\<close> and its \<^verbatim>\<open>name\<close> is
  asked for.
\<close>

theorem stub_without_backend_raises:
  assumes "Window_init env a = Inr w"
  shows "invoke op w calls = Inl AttributeError"
  using Window_init_fresh [OF assms]
  by (cases op)
    (simp_all add: warn_backend_def backend_name_def Window_show_def Window_hide_def
      Window_close_def Window_set_title_def Window_get_title_def Window_set_size_def
      Window_get_size_def Window_set_position_def Window_get_position_def
      Window_set_fullscreen_def Window_get_fullscreen_def Window_swap_def Window_activate_def)

theorem stub_without_backend_raises_witness:
  "Window_init script_env args24 = Inr window24 \<and> invoke Show window24 [] = Inl AttributeError"
  using stub_without_backend_raises [OF init_window24, of Show "[]"] init_window24
  by simp

section \<open>Clearing\<close>

text \<open>
  C8. \<^verbatim>\<open>clear()\<close> adds exactly two calls to the trace: one \<^verbatim>\<open>glClearColor\<close> with the four
  components of the stored colour, then one \<^verbatim>\<open>glClear\<close> with exactly \<^verbatim>\<open>_clearflags\<close>; the
  window is returned as it was.
\<close>

theorem clear_issues_color_then_clear:
  assumes "self_color w = (r, g, b, a)"
  shows "Window_clear w calls =
           (w, calls @ [GL_glClearColor r g b a, GL_glClear (self_clearflags w)])"
  using assms by (simp add: Window_clear_def)

theorem clear_issues_color_then_clear_witness:
  "self_color window24 = (0, 0, 0, 1) \<and>
   Window_clear window24 [] = (window24, [GL_glClearColor 0 0 0 1, GL_glClear 16640])"
proof -
  have c: "self_color window24 = (0, 0, 0, 1)"
    by (simp add: window24_def)
  from clear_issues_color_then_clear [OF c, of "[]"] c
  show ?thesis by (simp add: window24_def)
qed

section \<open>Timer registration\<close>

text \<open>
  C1. For every delay (so for every non-negative one) and every callback \<open>func\<close>,
  registering \<open>func\<close> through \<^verbatim>\<open>timer(delay)\<close> appends exactly the one entry
  \<open>(func, delay)\<close> to \<^verbatim>\<open>_timer_stack\<close> and exactly the one entry \<open>0\<close> to \<^verbatim>\<open>_timer_date\<close>, and
  the value returned for \<open>func\<close> is \<open>func\<close> itself.
\<close>

theorem timer_registers_one_entry:
  "fst (register w delay func) = func \<and>
   self_timer_stack (snd (register w delay func)) = self_timer_stack w @ [(func, delay)] \<and>
   self_timer_date (snd (register w delay func)) = self_timer_date w @ [0]"
  by (simp add: register_def Window_timer_def)

lemma registrations_stack:
  "self_timer_stack (registrations rs w) = self_timer_stack w @ rs"
  by (induction rs arbitrary: w) (auto simp: register_def Window_timer_def)

lemma registrations_date:
  "self_timer_date (registrations rs w) = self_timer_date w @ replicate (length rs) 0"
  by (induction rs arbitrary: w) (auto simp: register_def Window_timer_def replicate_append_same)

text \<open>
  C2. After any sequence of registrations on a constructed window, \<^verbatim>\<open>_timer_stack\<close> holds
  the registered pairs in the order in which they were registered, \<^verbatim>\<open>_timer_date\<close> holds
  one \<open>0\<close> for each, and the two lists have the same length.
\<close>

theorem registry_order_and_lengths:
  assumes "Window_init env a = Inr w"
  shows "self_timer_stack (registrations rs w) = rs \<and>
         self_timer_date (registrations rs w) = replicate (length rs) 0 \<and>
         length (self_timer_stack (registrations rs w)) =
           length (self_timer_date (registrations rs w))"
  using Window_init_fresh [OF assms] by (simp add: registrations_stack registrations_date)

theorem registry_order_and_lengths_witness:
  "self_timer_stack (registrations [(7, 2), (5, 0), (7, 1)] window24) = [(7, 2), (5, 0), (7, 1)] \<and>
   self_timer_date (registrations [(7, 2), (5, 0), (7, 1)] window24) = [0, 0, 0]"
  using registry_order_and_lengths [OF init_window24, of "[(7, 2), (5, 0), (7, 1)]"]
  by (simp add: numeral_3_eq_3)

lemma decorate_all_stack:
  "self_timer_stack (decorate_all (Decorator delay) fs w) =
     self_timer_stack w @ map (\<lambda>func. (func, delay)) fs"
  by (induction fs arbitrary: w) auto

lemma decorate_all_date:
  "self_timer_date (decorate_all (Decorator delay) fs w) =
     self_timer_date w @ replicate (length fs) 0"
  by (induction fs arbitrary: w) (auto simp: replicate_append_same)

text \<open>
  C10. The call \<^verbatim>\<open>timer(delay)\<close> leaves the window, and so both registries, as they
  were. The decorator it returns, applied to the callbacks \<open>fs\<close> in turn on a window
  \<open>w'\<close>, appends one entry per callback, each paired with the same \<open>delay\<close>, and one
  \<open>0\<close> per callback.
\<close>

theorem timer_call_alone_registers_nothing:
  "snd (Window_timer w delay) = w \<and>
   self_timer_stack (decorate_all (fst (Window_timer w delay)) fs w') =
     self_timer_stack w' @ map (\<lambda>func. (func, delay)) fs \<and>
   self_timer_date (decorate_all (fst (Window_timer w delay)) fs w') =
     self_timer_date w' @ replicate (length fs) 0"
  by (simp add: Window_timer_def decorate_all_stack decorate_all_date)

end
